theory Spec2Isabelle
  imports Main
begin

section \<open>Strings and the integer conversion of the host language\<close>

text \<open>
  The program is a Python script. A Python \<open>str\<close> is a sequence of Unicode code points
  and is modelled as the list of their numbers (integers); \<open>len\<close> is \<open>length\<close>. The texts that the
  script itself writes (labels, messages, the choices of a select box) are plain
  \<open>string\<close>s. The functions of this section are the embedding of the built-ins the script
  calls on its ZIP code: \<open>int(s)\<close>, \<open>s.isdigit()\<close> and \<open>"\n".join(xs)\<close>.
\<close>

type_synonym pystr = "int list"

text \<open>The \<open>str\<close> of a text written in ASCII.\<close>

definition ascii :: "string \<Rightarrow> pystr" where
  "ascii s = map of_char s"

text \<open>
  The decimal digits of the Unicode character database (version 14.0, that of
  CPython 3.11). They come in runs of ten consecutive code points, the digits 0 to 9 in
  order; the table lists the zero of each run: the ASCII digits at 48, the Arabic-Indic
  digits at 1632, and so on, with the fullwidth digits at 65296.
\<close>

definition decimal_zeros :: "int list" where
  "decimal_zeros =
     [48, 1632, 1776, 1984, 2406, 2534, 2662, 2790, 2918, 3046, 3174, 3302, 3430, 3558,
      3664, 3792, 3872, 4160, 4240, 6112, 6160, 6470, 6608, 6784, 6800, 6992, 7088, 7232,
      7248, 42528, 43216, 43264, 43472, 43504, 43600, 44016, 65296, 66720, 68912, 69734,
      69872, 69942, 70096, 70384, 70736, 70864, 71248, 71360, 71472, 71904, 72016, 72784,
      73040, 73120, 92768, 92864, 93008, 120782, 120792, 120802, 120812, 120822, 123200,
      123632, 125264, 130032]"

text \<open>The decimal value of a code point, \<open>None\<close> when it is not a decimal digit.\<close>

definition decimal_digit :: "int \<Rightarrow> int option" where
  "decimal_digit c =
     (case find (\<lambda>z. z \<le> c \<and> c < z + 10) decimal_zeros of
        None \<Rightarrow> None
      | Some z \<Rightarrow> Some (c - z))"

definition is_decimal :: "int \<Rightarrow> bool" where
  "is_decimal c = (decimal_digit c \<noteq> None)"

definition digit_value :: "int \<Rightarrow> int" where
  "digit_value c = (case decimal_digit c of None \<Rightarrow> 0 | Some v \<Rightarrow> v)"

text \<open>
  The code points \<open>int\<close> skips around the number: tab, line feed, vertical tab, form
  feed, carriage return, space, and the white space beyond ASCII. (U+001C .. U+001F are
  white space for \<open>str.isspace\<close> but not for \<open>int\<close>.)
\<close>

definition int_spaces :: "int list" where
  "int_spaces =
     [9, 10, 11, 12, 13, 32, 133, 160, 5760, 8192, 8193, 8194, 8195, 8196, 8197, 8198,
      8199, 8200, 8201, 8202, 8232, 8233, 8239, 8287, 12288]"

definition is_int_space :: "int \<Rightarrow> bool" where
  "is_int_space c = (c \<in> set int_spaces)"

text \<open>
  The code points that are digits for \<open>str.isdigit\<close> without being decimal digits
  (superscripts, circled digits and the like; \<open>int\<close> rejects them), as inclusive ranges.
\<close>

definition other_digit_ranges :: "(int \<times> int) list" where
  "other_digit_ranges =
     [(178, 179), (185, 185), (4969, 4977), (6618, 6618), (8304, 8304), (8308, 8313),
      (8320, 8329), (9312, 9320), (9332, 9340), (9352, 9360), (9450, 9450), (9461, 9469),
      (9471, 9471), (10102, 10110), (10112, 10120), (10122, 10130), (68160, 68163),
      (69216, 69224), (69714, 69722), (127232, 127242)]"

definition is_digit_char :: "int \<Rightarrow> bool" where
  "is_digit_char c =
     (is_decimal c \<or> list_ex (\<lambda>(lo, hi). lo \<le> c \<and> c \<le> hi) other_digit_ranges)"

text \<open>\<open>s.isdigit()\<close>: at least one character, and every character a digit.\<close>

definition isdigit :: "pystr \<Rightarrow> bool" where
  "isdigit s = (s \<noteq> [] \<and> list_all is_digit_char s)"

text \<open>The value of a run of decimal digits, most significant first.\<close>

definition decimal_value :: "pystr \<Rightarrow> int" where
  "decimal_value ds = foldl (\<lambda>a c. 10 * a + digit_value c) 0 ds"

text \<open>The signs and the underscore.\<close>

definition plus_sign :: int where
  "plus_sign = of_char CHR ''+''"

definition minus_sign :: int where
  "minus_sign = of_char CHR ''-''"

definition underscore :: int where
  "underscore = of_char CHR ''_''"

text \<open>
  Underscores inside the digit run: never two in a row, never at the end. (The run not
  starting with one is checked by \<open>py_int\<close> itself.)
\<close>

fun underscores_ok :: "pystr \<Rightarrow> bool" where
  "underscores_ok [] = True"
| "underscores_ok [c] = (c \<noteq> underscore)"
| "underscores_ok (c # d # r) = (\<not> (c = underscore \<and> d = underscore) \<and> underscores_ok (d # r))"

text \<open>
  The interpreter's default limit on the number of digits of a decimal literal that
  \<open>int\<close> converts; a longer literal raises \<open>ValueError\<close>.
\<close>

definition int_max_str_digits :: nat where
  "int_max_str_digits = 4300"

text \<open>
  \<open>int(s)\<close> in base ten. \<open>None\<close> is the \<open>ValueError\<close> the script catches. The accepted
  strings are: white space, an optional sign, decimal digits with single underscores
  allowed between two digits, white space. Leading zeros are accepted, and the length of
  the string plays no part.
\<close>

definition py_int :: "pystr \<Rightarrow> int option" where
  "py_int s =
     (let s1 = dropWhile is_int_space s;
          neg = (case s1 of [] \<Rightarrow> False | c # _ \<Rightarrow> c = minus_sign);
          s2 = (case s1 of [] \<Rightarrow> [] | c # r \<Rightarrow> if c = plus_sign \<or> c = minus_sign then r else s1);
          body = takeWhile (\<lambda>c. is_decimal c \<or> c = underscore) s2;
          rest = dropWhile (\<lambda>c. is_decimal c \<or> c = underscore) s2;
          ds = filter is_decimal body
      in if ds = [] \<or> (case body of [] \<Rightarrow> True | c # _ \<Rightarrow> c = underscore) \<or> \<not> underscores_ok body
            \<or> \<not> list_all is_int_space rest \<or> int_max_str_digits < length ds
         then None
         else Some (if neg then - decimal_value ds else decimal_value ds))"

text \<open>\<open>"\n".join(xs)\<close>.\<close>

fun join_lines :: "string list \<Rightarrow> string" where
  "join_lines [] = []"
| "join_lines [x] = x"
| "join_lines (x # y # r) = x @ CHR 0x0A # join_lines (y # r)"

section \<open>The region classifier\<close>

text \<open>The table \<open>ny_ranges\<close> of \<open>is_valid_ny_zipcode\<close>, in the order of the source.\<close>

definition ny_ranges :: "(int \<times> int) list" where
  "ny_ranges =
     [(10001, 14925),
      (12007, 12887),
      (13001, 13901),
      (14001, 14788),
      (14801, 14925)]"

text \<open>
  \<open>is_valid_ny_zipcode\<close>: convert, then test the ranges in turn (\<open>any\<close>); a \<open>ValueError\<close>
  of the conversion gives \<open>False\<close>.
\<close>

definition is_valid_ny_zipcode :: "pystr \<Rightarrow> bool" where
  "is_valid_ny_zipcode zipcode =
     (case py_int zipcode of
        None \<Rightarrow> False
      | Some zip_int \<Rightarrow> list_ex (\<lambda>(lower, upper). lower \<le> zip_int \<and> zip_int \<le> upper) ny_ranges)"

text \<open>
  \<open>get_region\<close>: the nested chain of range tests of the source, branch for branch; a
  \<open>ValueError\<close> of the conversion gives \<open>"Invalid"\<close>.
\<close>

definition get_region :: "pystr \<Rightarrow> string" where
  "get_region zipcode =
     (case py_int zipcode of
        None \<Rightarrow> ''Invalid''
      | Some zip_int \<Rightarrow>
          if 10001 \<le> zip_int \<and> zip_int \<le> 14925 then
            (if 10001 \<le> zip_int \<and> zip_int \<le> 10282 then ''Manhattan, NYC''
             else if 10301 \<le> zip_int \<and> zip_int \<le> 10314 then ''Staten Island, NYC''
             else if 10451 \<le> zip_int \<and> zip_int \<le> 10475 then ''Bronx, NYC''
             else if 11001 \<le> zip_int \<and> zip_int \<le> 11697 then ''Queens, NYC''
             else if 11201 \<le> zip_int \<and> zip_int \<le> 11256 then ''Brooklyn, NYC''
             else ''New York City Area'')
          else if 12007 \<le> zip_int \<and> zip_int \<le> 12887 then ''Capital Region''
          else if 13001 \<le> zip_int \<and> zip_int \<le> 13901 then ''Central New York''
          else if 14001 \<le> zip_int \<and> zip_int \<le> 14788 then ''Western New York''
          else if 14801 \<le> zip_int \<and> zip_int \<le> 14925 then ''Southern Tier''
          else ''Unknown'')"

section \<open>Temporal features\<close>

text \<open>
  The date widget returns a \<open>datetime.date\<close>. Its constructor admits only calendar dates,
  so a value of this record that the script sees has \<open>1 \<le> month \<le> 12\<close>.
\<close>

record date =
  year :: int
  month :: int
  day :: int

text \<open>
  \<open>date.weekday()\<close> as the standard library computes it: the proleptic Gregorian ordinal
  of the date (1 for 0001-01-01) plus 6, modulo 7.
\<close>

definition is_leap :: "int \<Rightarrow> bool" where
  "is_leap y = (y mod 4 = 0 \<and> (y mod 100 \<noteq> 0 \<or> y mod 400 = 0))"

definition days_before_year :: "int \<Rightarrow> int" where
  "days_before_year y = (y - 1) * 365 + (y - 1) div 4 - (y - 1) div 100 + (y - 1) div 400"

definition DAYS_BEFORE_MONTH :: "int list" where
  "DAYS_BEFORE_MONTH = [- 1, 0, 31, 59, 90, 120, 151, 181, 212, 243, 273, 304, 334]"

definition days_before_month :: "int \<Rightarrow> int \<Rightarrow> int" where
  "days_before_month y m =
     (if 1 \<le> m \<and> m \<le> 12 then DAYS_BEFORE_MONTH ! nat m else 0)
     + (if 2 < m \<and> is_leap y then 1 else 0)"

definition toordinal :: "date \<Rightarrow> int" where
  "toordinal d = days_before_year (year d) + days_before_month (year d) (month d) + day d"

definition weekday :: "date \<Rightarrow> int" where
  "weekday d = (toordinal d + 6) mod 7"

text \<open>The three indicator features of the script, integers 1 and 0 as in the source.\<close>

definition is_rush_hour :: "int \<Rightarrow> int" where
  "is_rush_hour hour = (if (7 \<le> hour \<and> hour \<le> 9) \<or> (16 \<le> hour \<and> hour \<le> 19) then 1 else 0)"

definition is_weekend :: "int \<Rightarrow> int" where
  "is_weekend day_of_week = (if day_of_week \<ge> 5 then 1 else 0)"

definition is_night_time :: "int \<Rightarrow> int" where
  "is_night_time hour = (if hour \<ge> 22 \<or> hour \<le> 5 then 1 else 0)"

section \<open>The form, the request and the predictor\<close>

text \<open>The values of the widgets in one run of the script.\<close>

record form =
  date_time :: date
  hour :: int
  vehicle_type :: string
  contributing_factor :: string
  zip_code :: pystr
  predict_pressed :: bool

text \<open>The one-row table \<open>input_data\<close>, a field per column, in the order of the source.\<close>

record request =
  Month :: int
  Day :: int
  Hour :: int
  DayOfWeek :: int
  VEHICLE_TYPE_CODE_2 :: string
  ZIP_CODE :: int
  CONTRIBUTING_FACTOR_VEHICLE_1 :: string
  IsRushHour :: int
  IsWeekend :: int
  IsNightTime :: int

text \<open>
  The unpickled model is opaque. A call returns, or raises an exception that is an
  \<open>Exception\<close> (\<open>Raises\<close>, with the text of the exception), or raises one that is not
  (\<open>Raises_base\<close>: a \<open>BaseException\<close> such as \<open>KeyboardInterrupt\<close> or \<open>SystemExit\<close>).
  \<open>predict\<close> returns the label \<open>prediction[0]\<close>, \<open>predict_proba\<close> the probability
  \<open>prediction_proba[1]\<close>, kept as the text that the format \<open>.2%\<close> gives it (floating
  point is not modelled).
\<close>

datatype 'a result =
  Returns 'a
| Raises string
| Raises_base string

record model =
  predict :: "request \<Rightarrow> int result"
  predict_proba :: "request \<Rightarrow> string result"

text \<open>The exceptions that reach the \<open>except Exception\<close> clause of the button handler.\<close>

datatype exn =
  ValueError pystr
| Raised string

text \<open>
  What a run does, in order: the messages and results it renders and the calls it makes to
  the model. \<open>St_error_making_prediction e\<close> is
  \<open>st.error(f"Error making prediction: {str(e)}")\<close>.
\<close>

datatype event =
  St_warning string
| St_error string
| St_success string
| St_header string
| St_metric string string
| St_markdown string
| St_error_making_prediction exn
| Model_predict request
| Model_predict_proba request

text \<open>
  How a block ends: it runs to its end, or \<open>st.stop()\<close> halts the run, or an exception
  leaves it uncaught. (\<open>st.stop\<close> raises a control exception that is not an \<open>Exception\<close>,
  so the handler's \<open>except Exception\<close> clause does not catch it, no more than it catches
  a \<open>BaseException\<close> raised by the model.)
\<close>

datatype outcome = Completed | Stopped | Uncaught string

text \<open>
  The variables of the script that the handler reads and writes: the widget values, which
  it only reads, and the variables it assigns (\<open>None\<close> while unassigned).
\<close>

record state =
  widgets :: form
  input_data_v :: "request option"
  prediction_v :: "int option"
  prediction_proba_v :: "string option"
  risk_factors_v :: "string list option"

section \<open>The ZIP code block and the predict button\<close>

text \<open>The check under the ZIP code text input (the assignment to the unused \<open>region\<close> left out).\<close>

definition zip_code_block :: "pystr \<Rightarrow> event list" where
  "zip_code_block z =
     (if \<not> isdigit z \<or> length z \<noteq> 5 then
        [St_warning ''Please enter a valid 5-digit ZIP code'']
      else if \<not> is_valid_ny_zipcode z then
        [St_error ''This ZIP code is not in New York State. Please enter a valid NY ZIP code.'']
      else
        [St_success ''Valid New York State ZIP code.''])"

text \<open>The list \<open>risk_factors\<close> that the handler builds, and what it renders from it.\<close>

definition risk_factors :: "int \<Rightarrow> int \<Rightarrow> string \<Rightarrow> string list" where
  "risk_factors rush night factor =
     (if rush \<noteq> 0 then [''- Accident occurs during rush hour''] else [])
     @ (if night \<noteq> 0 then [''- Accident occurs during night time''] else [])
     @ (if factor \<in> set [''driver inattention/distraction'', ''unsafe speed'']
        then [''- High-risk contributing factor: '' @ factor] else [])"

definition render_risk_factors :: "string list \<Rightarrow> event" where
  "render_risk_factors rf =
     (if rf \<noteq> [] then St_markdown (join_lines rf)
      else St_markdown ''No significant risk factors identified.'')"

text \<open>\<open>input_data\<close> for a form whose ZIP code converts to \<open>zip_int\<close>.\<close>

definition input_data :: "form \<Rightarrow> int \<Rightarrow> request" where
  "input_data f zip_int =
     \<lparr> Month = month (date_time f),
       Day = day (date_time f),
       Hour = hour f,
       DayOfWeek = weekday (date_time f),
       VEHICLE_TYPE_CODE_2 = vehicle_type f,
       ZIP_CODE = zip_int,
       CONTRIBUTING_FACTOR_VEHICLE_1 = contributing_factor f,
       IsRushHour = is_rush_hour (hour f),
       IsWeekend = is_weekend (weekday (date_time f)),
       IsNightTime = is_night_time (hour f) \<rparr>"

text \<open>What the handler displays after the two calls to the model have returned.\<close>

definition show_results :: "form \<Rightarrow> int \<Rightarrow> string \<Rightarrow> string list \<Rightarrow> event list" where
  "show_results f prediction proba rf =
     [St_header ''Prediction Results'',
      St_metric ''Prediction''
        (if prediction = 1 then ''Casualty Likely'' else ''No Casualty Likely''),
      St_metric ''Probability'' proba,
      St_markdown ''### Risk Factors'',
      render_risk_factors rf]"

text \<open>
  The body of \<open>if st.button("Predict Accident Severity"):\<close>, from the variables before it
  to the events, the way it ends and the variables after it. Every exit of the \<open>try\<close>
  block is a branch: the validity check with \<open>st.stop()\<close>, the conversion of the ZIP code,
  the two calls to the model, each of which may return, raise an \<open>Exception\<close> (caught by
  the \<open>except\<close> clause) or raise something else (not caught), and the display of the
  result.
\<close>

definition predict_button :: "model \<Rightarrow> state \<Rightarrow> event list \<times> outcome \<times> state" where
  "predict_button m s =
     (let f = widgets s in
      if \<not> is_valid_ny_zipcode (zip_code f) then
        ([St_error ''Cannot make prediction: Please enter a valid New York State ZIP code.''],
         Stopped, s)
      else
        (case py_int (zip_code f) of
           None \<Rightarrow> ([St_error_making_prediction (ValueError (zip_code f))], Completed, s)
         | Some zip_int \<Rightarrow>
             (let req = input_data f zip_int;
                  s1 = s \<lparr> input_data_v := Some req \<rparr> in
              (case predict m req of
                 Raises e \<Rightarrow>
                   ([Model_predict req, St_error_making_prediction (Raised e)], Completed, s1)
               | Raises_base e \<Rightarrow> ([Model_predict req], Uncaught e, s1)
               | Returns prediction \<Rightarrow>
                   (let s2 = s1 \<lparr> prediction_v := Some prediction \<rparr> in
                    (case predict_proba m req of
                       Raises e \<Rightarrow>
                         ([Model_predict req, Model_predict_proba req,
                           St_error_making_prediction (Raised e)], Completed, s2)
                     | Raises_base e \<Rightarrow>
                         ([Model_predict req, Model_predict_proba req], Uncaught e, s2)
                     | Returns proba \<Rightarrow>
                         (let rf = risk_factors (is_rush_hour (hour f)) (is_night_time (hour f))
                                     (contributing_factor f)
                          in ([Model_predict req, Model_predict_proba req]
                                @ show_results f prediction proba rf,
                              Completed,
                              s2 \<lparr> prediction_proba_v := Some proba,
                                   risk_factors_v := Some rf \<rparr>))))))))"

text \<open>The variables at the start of a run: the widget values, nothing assigned yet.\<close>

definition initial_state :: "form \<Rightarrow> state" where
  "initial_state f =
     \<lparr> widgets = f, input_data_v = None, prediction_v = None, prediction_proba_v = None,
       risk_factors_v = None \<rparr>"

text \<open>
  One run of the script from the ZIP code block on: the block, then the button handler
  when the button was pressed.
\<close>

definition run_script :: "model \<Rightarrow> form \<Rightarrow> event list \<times> outcome \<times> state" where
  "run_script m f =
     (if predict_pressed f then
        (case predict_button m (initial_state f) of
           (evs, out, s) \<Rightarrow> (zip_code_block (zip_code f) @ evs, out, s))
      else (zip_code_block (zip_code f), Completed, initial_state f))"

text \<open>The calls to the model among the events of a run.\<close>

fun is_model_call :: "event \<Rightarrow> bool" where
  "is_model_call (Model_predict _) = True"
| "is_model_call (Model_predict_proba _) = True"
| "is_model_call _ = False"

section \<open>Reference definitions and sample inputs\<close>

text \<open>
  The validity of a ZIP code in the words of the specification, to compare
  \<open>is_valid_ny_zipcode\<close> with: a string of exactly five decimal digits whose value lies
  in the union of the five ranges. A digit is what the program itself takes for one, a
  decimal digit of any script.
\<close>

definition five_digits :: "pystr \<Rightarrow> bool" where
  "five_digits z = (length z = 5 \<and> list_all is_decimal z)"

definition ny_union :: "int set" where
  "ny_union = {10001..14925} \<union> {12007..12887} \<union> {13001..13901} \<union> {14001..14788}
                \<union> {14801..14925}"

definition spec_is_valid :: "pystr \<Rightarrow> bool" where
  "spec_is_valid z = (five_digits z \<and> decimal_value z \<in> ny_union)"

text \<open>
  The calendar, to compare \<open>weekday\<close> with: the days of a month of the Gregorian
  calendar, the dates of the calendar, and the day after a date.
\<close>

definition calendar_days_in_month :: "int \<Rightarrow> int \<Rightarrow> int" where
  "calendar_days_in_month y m =
     (if m = 2 then (if (y mod 4 = 0 \<and> y mod 100 \<noteq> 0) \<or> y mod 400 = 0 then 29 else 28)
      else if m = 4 \<or> m = 6 \<or> m = 9 \<or> m = 11 then 30
      else 31)"

definition calendar_date :: "date \<Rightarrow> bool" where
  "calendar_date d =
     (1 \<le> month d \<and> month d \<le> 12 \<and> 1 \<le> day d
      \<and> day d \<le> calendar_days_in_month (year d) (month d))"

definition next_day :: "date \<Rightarrow> date" where
  "next_day d =
     (if day d < calendar_days_in_month (year d) (month d) then d \<lparr> day := day d + 1 \<rparr>
      else if month d < 12 then d \<lparr> month := month d + 1, day := 1 \<rparr>
      else d \<lparr> year := year d + 1, month := 1, day := 1 \<rparr>)"

text \<open>The three notes of \<open>risk_factors\<close>, named.\<close>

definition rush_hour_note :: string where
  "rush_hour_note = ''- Accident occurs during rush hour''"

definition night_time_note :: string where
  "night_time_note = ''- Accident occurs during night time''"

definition high_risk_note :: "string \<Rightarrow> string" where
  "high_risk_note factor = ''- High-risk contributing factor: '' @ factor"

text \<open>
  A form as a user can fill it in: Saturday 2024-06-15, 8 o'clock, ZIP code 10001, the
  button pressed; the same form with the six characters 010001 in the ZIP code field; a
  model whose \<open>predict\<close> raises an \<open>Exception\<close>, and one whose \<open>predict\<close> is interrupted.
\<close>

definition example_form :: form where
  "example_form =
     \<lparr> date_time = \<lparr> year = 2024, month = 6, day = 15 \<rparr>,
       hour = 8,
       vehicle_type = ''sedan'',
       contributing_factor = ''unsafe speed'',
       zip_code = ascii ''10001'',
       predict_pressed = True \<rparr>"

definition six_digit_form :: form where
  "six_digit_form = example_form \<lparr> zip_code := ascii ''010001'' \<rparr>"

definition failing_model :: model where
  "failing_model =
     \<lparr> predict = (\<lambda>r. Raises ''fault''), predict_proba = (\<lambda>r. Returns ''50.00%'') \<rparr>"

definition interrupted_model :: model where
  "interrupted_model =
     \<lparr> predict = (\<lambda>r. Raises_base ''KeyboardInterrupt''),
       predict_proba = (\<lambda>r. Returns ''50.00%'') \<rparr>"

section \<open>Facts about the conversion\<close>

lemma dropWhile_same_length: "length (dropWhile P xs) = length xs \<Longrightarrow> dropWhile P xs = xs"
proof (cases xs)
  case Nil
  then show ?thesis by simp
next
  case (Cons x r)
  assume len: "length (dropWhile P xs) = length xs"
  show ?thesis
  proof (cases "P x")
    case True
    have "length (dropWhile P r) \<le> length r" by (rule length_dropWhile_le)
    with True Cons len show ?thesis by simp
  next
    case False
    with Cons show ?thesis by simp
  qed
qed

lemma takeWhile_same_length: "length (takeWhile P xs) = length xs \<Longrightarrow> takeWhile P xs = xs"
  by (induction xs) (auto split: if_splits)

lemma filter_same_length: "length (filter P xs) = length xs \<Longrightarrow> filter P xs = xs"
proof (induction xs)
  case Nil
  then show ?case by simp
next
  case (Cons a xs)
  have le: "length (filter P xs) \<le> length xs" by (rule length_filter_le)
  show ?case
  proof (cases "P a")
    case True
    with Cons show ?thesis by simp
  next
    case False
    with Cons.prems le show ?thesis by simp
  qed
qed

lemma is_valid_ny_zipcode_eq:
  "is_valid_ny_zipcode z = (case py_int z of None \<Rightarrow> False | Some n \<Rightarrow> 10001 \<le> n \<and> n \<le> 14925)"
  by (auto simp: is_valid_ny_zipcode_def ny_ranges_def split: option.splits)

lemma ny_union_eq: "n \<in> ny_union \<longleftrightarrow> 10001 \<le> n \<and> n \<le> 14925"
  by (auto simp: ny_union_def)

lemma is_decimal_run: "is_decimal c \<Longrightarrow> \<exists>z \<in> set decimal_zeros. z \<le> c \<and> c < z + 10"
  by (auto simp: is_decimal_def decimal_digit_def find_Some_iff split: option.splits)

lemma digit_value_range: "is_decimal c \<Longrightarrow> 0 \<le> digit_value c \<and> digit_value c \<le> 9"
  by (auto simp: is_decimal_def digit_value_def decimal_digit_def find_Some_iff
      split: option.splits)

text \<open>No run of decimal digits holds a sign, the underscore or a white-space character.\<close>

lemma decimal_runs_apart:
  "\<forall>z \<in> set decimal_zeros. \<forall>s \<in> set (plus_sign # minus_sign # underscore # int_spaces).
     \<not> (z \<le> s \<and> s < z + 10)"
  by (simp add: decimal_zeros_def int_spaces_def plus_sign_def minus_sign_def underscore_def)

lemma is_decimal_not_other:
  assumes "is_decimal c"
  shows "\<not> is_int_space c \<and> c \<noteq> plus_sign \<and> c \<noteq> minus_sign \<and> c \<noteq> underscore"
proof -
  from is_decimal_run [OF assms] obtain z where z: "z \<in> set decimal_zeros" "z \<le> c" "c < z + 10"
    by blast
  from decimal_runs_apart z(1)
  have "\<forall>s \<in> set (plus_sign # minus_sign # underscore # int_spaces). \<not> (z \<le> s \<and> s < z + 10)"
    by blast
  with z(2,3) show ?thesis by (auto simp: is_int_space_def)
qed

lemma foldl_decimal_bounds:
  "list_all is_decimal ds \<Longrightarrow> 0 \<le> a \<Longrightarrow>
     0 \<le> foldl (\<lambda>a c. 10 * a + digit_value c) a ds
     \<and> foldl (\<lambda>a c. 10 * a + digit_value c) a ds < (a + 1) * 10 ^ length ds"
proof (induction ds arbitrary: a)
  case Nil
  then show ?case by simp
next
  case (Cons c ds)
  from Cons.prems have c: "0 \<le> digit_value c" "digit_value c \<le> 9" and ds: "list_all is_decimal ds"
    using digit_value_range by auto
  let ?b = "10 * a + digit_value c"
  have b0: "0 \<le> ?b" using c Cons.prems by simp
  from Cons.IH [OF ds b0]
  have ih: "0 \<le> foldl (\<lambda>a c. 10 * a + digit_value c) ?b ds"
    "foldl (\<lambda>a c. 10 * a + digit_value c) ?b ds < (?b + 1) * 10 ^ length ds" by auto
  have "?b + 1 \<le> (a + 1) * 10" using c by simp
  then have "(?b + 1) * 10 ^ length ds \<le> ((a + 1) * 10) * 10 ^ length ds"
    by (intro mult_right_mono) auto
  also have "\<dots> = (a + 1) * 10 ^ length (c # ds)" by simp
  finally have "(?b + 1) * 10 ^ length ds \<le> (a + 1) * 10 ^ length (c # ds)" .
  with ih have "foldl (\<lambda>a c. 10 * a + digit_value c) ?b ds < (a + 1) * 10 ^ length (c # ds)"
    by linarith
  with ih(1) show ?case by simp
qed

lemma decimal_value_bounds:
  "list_all is_decimal ds \<Longrightarrow> 0 \<le> decimal_value ds \<and> decimal_value ds < 10 ^ length ds"
  using foldl_decimal_bounds [of ds 0] by (simp add: decimal_value_def)

lemma underscores_ok_plain: "\<forall>c \<in> set s. c \<noteq> underscore \<Longrightarrow> underscores_ok s"
  by (induction s rule: underscores_ok.induct) auto

text \<open>On a non-empty run of decimal digits within the limit, \<open>int\<close> returns its value.\<close>

lemma py_int_digits:
  assumes "z \<noteq> []" and "list_all is_decimal z" and "length z \<le> int_max_str_digits"
  shows "py_int z = Some (decimal_value z)"
proof -
  obtain c r where z: "z = c # r" using assms(1) by (cases z) auto
  have all: "\<forall>x \<in> set z. is_decimal x" using assms(2) by (simp add: list_all_iff)
  have c: "is_decimal c" using all z by simp
  have s1: "dropWhile is_int_space z = z"
    using c is_decimal_not_other z by simp
  have body: "takeWhile (\<lambda>c. is_decimal c \<or> c = underscore) z = z"
    using all by simp
  have rest: "dropWhile (\<lambda>c. is_decimal c \<or> c = underscore) z = []"
    using all by simp
  have ds: "filter is_decimal z = z" using all by simp
  have us: "underscores_ok z"
    using all is_decimal_not_other by (intro underscores_ok_plain) blast
  have neg: "(case z of [] \<Rightarrow> False | c # _ \<Rightarrow> c = minus_sign) = False"
    using c is_decimal_not_other z by simp
  have s2: "(case z of [] \<Rightarrow> [] | c # r \<Rightarrow> if c = plus_sign \<or> c = minus_sign then r else z) = z"
    using c is_decimal_not_other z by simp
  have start: "(case z of [] \<Rightarrow> True | c # _ \<Rightarrow> c = underscore) = False"
    using c is_decimal_not_other z by simp
  show ?thesis
    unfolding py_int_def Let_def s1 neg s2 body rest ds start
    using assms(1,3) us by simp
qed

text \<open>
  Whatever \<open>int\<close> returns is, up to the sign, the value of a run of decimal digits no
  longer than the string; when the run is as long as the string, it is the string.
\<close>

lemma py_int_shape:
  assumes "py_int z = Some n"
  shows "\<exists>ds. list_all is_decimal ds \<and> \<bar>n\<bar> = decimal_value ds \<and> length ds \<le> length z
            \<and> (length ds = length z \<longrightarrow> ds = z \<and> n = decimal_value z)"
proof -
  define s1 where "s1 = dropWhile is_int_space z"
  define s2 where "s2 = (case s1 of [] \<Rightarrow> [] | c # r \<Rightarrow> if c = plus_sign \<or> c = minus_sign then r else s1)"
  define body where "body = takeWhile (\<lambda>c. is_decimal c \<or> c = underscore) s2"
  define ds where "ds = filter is_decimal body"
  define neg where "neg = (case s1 of [] \<Rightarrow> False | c # _ \<Rightarrow> c = minus_sign)"
  from assms have n: "n = (if neg then - decimal_value ds else decimal_value ds)"
    unfolding py_int_def Let_def s1_def [symmetric] s2_def [symmetric] body_def [symmetric]
      ds_def [symmetric] neg_def [symmetric]
    by (simp split: if_splits)
  have dec: "list_all is_decimal ds" by (simp add: ds_def list_all_iff)
  have l1: "length s1 \<le> length z" by (simp add: s1_def length_dropWhile_le)
  have l2: "length s2 \<le> length s1" by (auto simp: s2_def split: list.splits)
  have l3: "length body \<le> length s2" by (simp add: body_def length_takeWhile_le)
  have l4: "length ds \<le> length body" by (simp add: ds_def)
  have full: "ds = z \<and> n = decimal_value z" if eq: "length ds = length z"
  proof -
    from eq l1 l2 l3 l4 have e: "length ds = length body" "length body = length s2"
      "length s2 = length s1" "length s1 = length z" by auto
    have "s1 = z" using e(4) unfolding s1_def by (rule dropWhile_same_length)
    moreover have "s2 = s1 \<and> \<not> neg" using e(3) unfolding s2_def neg_def
      by (auto split: list.splits if_splits)
    moreover have "body = s2" using e(2) unfolding body_def by (rule takeWhile_same_length)
    moreover have "ds = body" using e(1) unfolding ds_def by (rule filter_same_length)
    ultimately show ?thesis using n by simp
  qed
  have "\<bar>n\<bar> = decimal_value ds" using n decimal_value_bounds [OF dec] by auto
  with dec l1 l2 l3 l4 full show ?thesis by (intro exI [of _ ds]) auto
qed

text \<open>
  A string of at most five characters that converts to 10000 or more is five decimal
  digits, and the conversion is their value.
\<close>

lemma py_int_at_most_five:
  assumes "py_int z = Some n" and "length z \<le> 5" and "10000 \<le> n"
  shows "length z = 5 \<and> list_all is_decimal z \<and> n = decimal_value z"
proof -
  from py_int_shape [OF assms(1)] obtain ds where ds: "list_all is_decimal ds"
    "\<bar>n\<bar> = decimal_value ds" "length ds \<le> length z"
    "length ds = length z \<longrightarrow> ds = z \<and> n = decimal_value z" by blast
  have "length ds = 5"
  proof (rule ccontr)
    assume "length ds \<noteq> 5"
    with ds(3) assms(2) have "length ds \<le> 4" by simp
    then have "(10::int) ^ length ds \<le> 10 ^ 4" by (intro power_increasing) auto
    with decimal_value_bounds [OF ds(1)] ds(2) assms(3) show False by simp
  qed
  with ds assms(2) show ?thesis by auto
qed

lemma ascii_010001: "ascii ''010001'' = [48, 49, 48, 48, 48, 49]"
  by (simp add: ascii_def)

lemma py_int_010001: "py_int (ascii ''010001'') = Some 10001"
  by code_simp

lemma py_int_13500: "py_int (ascii ''13500'') = Some 13500"
  by code_simp

lemma py_int_123: "py_int (ascii ''123'') = Some 123"
  by code_simp

lemma py_int_10001: "py_int (ascii ''10001'') = Some 10001"
  by code_simp

section \<open>Facts about the calendar\<close>

lemma div_pred:
  assumes "0 < k"
  shows "(y::int) div k = (y - 1) div k + (if y mod k = 0 then 1 else 0)"
proof (cases "y mod k = 0")
  case True
  have "y - 1 = k * (y div k - 1) + (k - 1)"
    using True by (simp add: algebra_simps) (metis mult_div_mod_eq add.right_neutral mult.commute)
  then have "(y - 1) div k = y div k - 1"
    using assms by (intro int_div_pos_eq [of _ k "y div k - 1" "k - 1"]) auto
  with True show ?thesis by simp
next
  case False
  have r: "0 \<le> y mod k" "y mod k < k" using assms by simp_all
  with False have r1: "0 \<le> y mod k - 1" "y mod k - 1 < k" by auto
  have "y - 1 = k * (y div k) + (y mod k - 1)" by (simp add: algebra_simps)
  then have "(y - 1) div k = y div k"
    using r1 by (intro int_div_pos_eq [of _ k "y div k" "y mod k - 1"]) auto
  with False show ?thesis by simp
qed

lemma leap_days:
  fixes a b c :: int
  assumes "q \<Longrightarrow> p" and "r \<Longrightarrow> q"
  shows "(if p \<and> (\<not> q \<or> r) then 366 else 365)
         = 365 + (if p then 1 else 0) - (if q then 1 else 0) + (if r then 1 else (0::int))"
  using assms by (cases p; cases q; cases r) simp_all

lemma mod_100_4: "(y::int) mod 100 = 0 \<Longrightarrow> y mod 4 = 0"
proof -
  assume a: "y mod 100 = 0"
  have "y mod 100 mod 4 = y mod 4" by (rule mod_mod_cancel) simp
  with a show ?thesis by simp
qed

lemma mod_400_100: "(y::int) mod 400 = 0 \<Longrightarrow> y mod 100 = 0"
proof -
  assume a: "y mod 400 = 0"
  have "y mod 400 mod 100 = y mod 100" by (rule mod_mod_cancel) simp
  with a show ?thesis by simp
qed

lemma is_leap_days:
  "(if is_leap y then 366 else 365)
   = 365 + (if y mod 4 = 0 then 1 else 0) - (if y mod 100 = 0 then 1 else 0)
       + (if y mod 400 = 0 then 1 else (0::int))"
proof -
  have a: "y mod 100 = 0 \<Longrightarrow> y mod 4 = 0" by (rule mod_100_4)
  have b: "y mod 400 = 0 \<Longrightarrow> y mod 100 = 0" by (rule mod_400_100)
  from leap_days [of "y mod 100 = 0" "y mod 4 = 0" "y mod 400 = 0", OF a b]
  show ?thesis unfolding is_leap_def by blast
qed
lemma days_before_year_Suc:
  "days_before_year (y + 1) = days_before_year y + (if is_leap y then 366 else 365)"
proof -
  define a where "a = (if y mod 4 = 0 then 1 else 0 :: int)"
  define b where "b = (if y mod 100 = 0 then 1 else 0 :: int)"
  define c where "c = (if y mod 400 = 0 then 1 else 0 :: int)"
  define p where "p = (y - 1) div 4"
  define q where "q = (y - 1) div 100"
  define r where "r = (y - 1) div 400"
  have d4: "y div 4 = p + a"
    unfolding a_def p_def by (rule div_pred) simp
  have d100: "y div 100 = q + b"
    unfolding b_def q_def by (rule div_pred) simp
  have d400: "y div 400 = r + c"
    unfolding c_def r_def by (rule div_pred) simp
  have leap: "(if is_leap y then 366 else 365) = 365 + a - b + c"
    unfolding a_def b_def c_def by (rule is_leap_days)
  have "days_before_year (y + 1) = y * 365 + y div 4 - y div 100 + y div 400"
    by (simp add: days_before_year_def)
  also have "\<dots> = y * 365 + (p + a) - (q + b) + (r + c)"
    by (simp only: d4 d100 d400)
  also have "\<dots> = ((y - 1) * 365 + p - q + r) + (365 + a - b + c)"
    by (simp add: algebra_simps)
  also have "(y - 1) * 365 + p - q + r = days_before_year y"
    by (simp add: days_before_year_def p_def q_def r_def)
  finally show ?thesis by (simp only: leap)
qed

lemma days_before_month_Suc:
  assumes "1 \<le> m" and "m < 12"
  shows "days_before_month y (m + 1) = days_before_month y m + calendar_days_in_month y m"
proof -
  from assms have "m = 1 \<or> m = 2 \<or> m = 3 \<or> m = 4 \<or> m = 5 \<or> m = 6 \<or> m = 7
    \<or> m = 8 \<or> m = 9 \<or> m = 10 \<or> m = 11" by arith
  then show ?thesis
    by (elim disjE)
      (auto simp: days_before_month_def DAYS_BEFORE_MONTH_def calendar_days_in_month_def
        is_leap_def)
qed

lemma days_before_month_12:
  "days_before_month y 12 + calendar_days_in_month y 12 = (if is_leap y then 366 else 365)"
  by (simp add: days_before_month_def DAYS_BEFORE_MONTH_def calendar_days_in_month_def)

lemma toordinal_next_day:
  assumes "calendar_date d"
  shows "toordinal (next_day d) = toordinal d + 1"
proof -
  from assms have m: "1 \<le> month d" "month d \<le> 12" and dy: "1 \<le> day d"
    "day d \<le> calendar_days_in_month (year d) (month d)"
    by (auto simp: calendar_date_def)
  show ?thesis
  proof (cases "day d < calendar_days_in_month (year d) (month d)")
    case True
    then show ?thesis by (simp add: next_day_def toordinal_def)
  next
    case False
    with dy have last: "day d = calendar_days_in_month (year d) (month d)" by simp
    show ?thesis
    proof (cases "month d < 12")
      case True
      with False last days_before_month_Suc [OF m(1) True, of "year d"] show ?thesis
        by (simp add: next_day_def toordinal_def)
    next
      case False
      with m have m12: "month d = 12" by simp
      have "days_before_month (year d + 1) 1 = 0"
        by (simp add: days_before_month_def DAYS_BEFORE_MONTH_def)
      with m12 last days_before_year_Suc [of "year d"] days_before_month_12 [of "year d"]
      show ?thesis
        by (simp add: next_day_def toordinal_def calendar_days_in_month_def split: if_splits)
    qed
  qed
qed

lemma calendar_date_next_day: "calendar_date d \<Longrightarrow> calendar_date (next_day d)"
  by (auto simp: calendar_date_def next_day_def calendar_days_in_month_def)

lemma weekday_next_day: "calendar_date d \<Longrightarrow> weekday (next_day d) = (weekday d + 1) mod 7"
  by (simp add: weekday_def toordinal_next_day mod_simps algebra_simps)

section \<open>Facts about the notes and the handler\<close>

lemma notes_distinct:
  "rush_hour_note \<noteq> night_time_note \<and> high_risk_note c \<noteq> rush_hour_note
   \<and> high_risk_note c \<noteq> night_time_note"
  by (simp add: rush_hour_note_def night_time_note_def high_risk_note_def)

lemma risk_factors_notes:
  "risk_factors r n c =
     (if r \<noteq> 0 then [rush_hour_note] else [])
     @ (if n \<noteq> 0 then [night_time_note] else [])
     @ (if c = ''driver inattention/distraction'' \<or> c = ''unsafe speed''
        then [high_risk_note c] else [])"
  by (simp add: risk_factors_def rush_hour_note_def night_time_note_def high_risk_note_def)

lemma render_risk_factors_no_call: "\<not> is_model_call (render_risk_factors rf)"
  by (simp add: render_risk_factors_def)

lemma show_results_no_call: "filter is_model_call (show_results f l p rf) = []"
  by (simp add: show_results_def render_risk_factors_no_call)

lemma weekday_2024_06_15: "weekday \<lparr> year = 2024, month = 6, day = 15 \<rparr> = 5"
  by (simp add: weekday_def toordinal_def days_before_year_def days_before_month_def
      DAYS_BEFORE_MONTH_def is_leap_def)

lemma weekday_2025_01_01: "weekday \<lparr> year = 2025, month = 1, day = 1 \<rparr> = 2"
  by (simp add: weekday_def toordinal_def days_before_year_def days_before_month_def
      DAYS_BEFORE_MONTH_def is_leap_def)

lemma calendar_date_funpow: "calendar_date d \<Longrightarrow> calendar_date ((next_day ^^ n) d)"
  by (induction n) (simp_all add: calendar_date_next_day)

lemma weekday_funpow:
  "calendar_date d \<Longrightarrow> weekday ((next_day ^^ n) d) = (weekday d + int n) mod 7"
proof (induction n)
  case 0
  then show ?case by (simp add: weekday_def)
next
  case (Suc n)
  have "weekday ((next_day ^^ Suc n) d) = (weekday ((next_day ^^ n) d) + 1) mod 7"
    using calendar_date_funpow [OF Suc.prems, of n] by (simp add: weekday_next_day)
  also have "\<dots> = ((weekday d + int n) mod 7 + 1) mod 7"
    using Suc by simp
  also have "\<dots> = (weekday d + int (Suc n)) mod 7"
    by (simp add: mod_simps algebra_simps)
  finally show ?case .
qed

text \<open>
  When the validity check of the handler fails, the handler reports the error and stops
  the run; the model is not called.
\<close>

lemma predict_button_invalid:
  "\<not> is_valid_ny_zipcode (zip_code (widgets s)) \<Longrightarrow>
     predict_button m s =
       ([St_error ''Cannot make prediction: Please enter a valid New York State ZIP code.''],
        Stopped, s)"
  by (simp add: predict_button_def)

text \<open>The handler never assigns a widget value.\<close>

lemma predict_button_widgets: "widgets (snd (snd (predict_button m s))) = widgets s"
  by (simp add: predict_button_def Let_def split: option.splits result.splits)

text \<open>What the handler displays and how it ends depend on the widget values alone.\<close>

lemma predict_button_reads_widgets:
  assumes "widgets s = widgets t"
  shows "fst (predict_button m s) = fst (predict_button m t)
         \<and> fst (snd (predict_button m s)) = fst (snd (predict_button m t))"
  using assms by (simp add: predict_button_def Let_def split: option.splits result.splits)

section \<open>The classifier on the test vectors\<close>

text \<open>
  C1. The classifier on the four test vectors: \<open>"10001"\<close> is Manhattan, \<open>"11201"\<close> is
  Queens (the Queens test comes before the Brooklyn test), \<open>"99999"\<close> is Unknown. On
  \<open>"13500"\<close> the source returns \<open>"New York City Area"\<close>, not \<open>"Central New York"\<close>: the
  outer test \<open>10001 \<le> zip_int \<le> 14925\<close> is made first and 13500 passes it, so the branch
  that returns \<open>"Central New York"\<close> is never reached.
\<close>

theorem get_region_test_vectors:
  "get_region (ascii ''10001'') = ''Manhattan, NYC''
   \<and> get_region (ascii ''11201'') = ''Queens, NYC''
   \<and> get_region (ascii ''13500'') = ''New York City Area''
   \<and> get_region (ascii ''99999'') = ''Unknown''"
  by code_simp

theorem get_region_test_vectors_witness:
  "get_region (ascii ''13500'') \<noteq> ''Central New York''"
  using get_region_test_vectors by simp

section \<open>Validity of a ZIP code\<close>

text \<open>
  C2. For every input string, \<open>is_valid_ny_zipcode\<close> returns true if and only if the
  string is five decimal digits whose value lies in the union of the five ranges, or is
  longer than five characters and \<open>int\<close> converts it to a value in that union (as it does
  for a five-digit ZIP code of the union with a leading zero, a sign, white space around it
  or an underscore inside). On every other string it returns false: on every string that
  \<open>int\<close> does not convert, and on every string that \<open>int\<close> converts to a value outside
  the union, whatever its length.
\<close>

theorem is_valid_ny_zipcode_spec:
  "(is_valid_ny_zipcode z \<longleftrightarrow>
      spec_is_valid z \<or> (5 < length z \<and> (\<exists>n. py_int z = Some n \<and> n \<in> ny_union)))
   \<and> (py_int z = None \<longrightarrow> \<not> is_valid_ny_zipcode z)
   \<and> (\<forall>n. py_int z = Some n \<longrightarrow> (is_valid_ny_zipcode z \<longleftrightarrow> n \<in> ny_union))"
proof -
  have parsed: "is_valid_ny_zipcode z \<longleftrightarrow> n \<in> ny_union" if "py_int z = Some n" for n
    using that by (simp add: is_valid_ny_zipcode_eq ny_union_eq)
  have unparsed: "\<not> is_valid_ny_zipcode z" if "py_int z = None"
    using that by (simp add: is_valid_ny_zipcode_eq)
  have spec: "is_valid_ny_zipcode z" if s: "spec_is_valid z"
  proof -
    from s have "z \<noteq> []" "list_all is_decimal z" "length z \<le> int_max_str_digits"
      by (auto simp: spec_is_valid_def five_digits_def int_max_str_digits_def)
    from py_int_digits [OF this] s show ?thesis
      by (simp add: parsed spec_is_valid_def)
  qed
  have short: "spec_is_valid z" if v: "is_valid_ny_zipcode z" and len: "length z \<le> 5"
  proof -
    from v obtain n where n: "py_int z = Some n" "n \<in> ny_union"
      using parsed unparsed by (cases "py_int z") auto
    from n(2) have "10000 \<le> n" by (simp add: ny_union_eq)
    from py_int_at_most_five [OF n(1) len this] n(2) show ?thesis
      by (simp add: spec_is_valid_def five_digits_def)
  qed
  have "is_valid_ny_zipcode z \<longleftrightarrow>
      spec_is_valid z \<or> (5 < length z \<and> (\<exists>n. py_int z = Some n \<and> n \<in> ny_union))"
  proof
    assume v: "is_valid_ny_zipcode z"
    show "spec_is_valid z \<or> (5 < length z \<and> (\<exists>n. py_int z = Some n \<and> n \<in> ny_union))"
    proof (cases "length z \<le> 5")
      case True
      with v short show ?thesis by blast
    next
      case False
      from v obtain n where "py_int z = Some n" "n \<in> ny_union"
        using parsed unparsed by (cases "py_int z") auto
      with False show ?thesis by auto
    qed
  next
    assume "spec_is_valid z \<or> (5 < length z \<and> (\<exists>n. py_int z = Some n \<and> n \<in> ny_union))"
    then show "is_valid_ny_zipcode z" using spec parsed by blast
  qed
  with parsed unparsed show ?thesis by blast
qed

theorem is_valid_ny_zipcode_spec_witness:
  "spec_is_valid (ascii ''14925'') \<and> is_valid_ny_zipcode (ascii ''14925'')
   \<and> py_int (ascii ''1492a'') = None \<and> \<not> is_valid_ny_zipcode (ascii ''1492a'')
   \<and> py_int (ascii ''999999'') = Some 999999 \<and> \<not> is_valid_ny_zipcode (ascii ''999999'')
   \<and> py_int (ascii ''010001'') = Some 10001 \<and> is_valid_ny_zipcode (ascii ''010001'')
   \<and> spec_is_valid [0xFF11, 0xFF10, 0xFF10, 0xFF10, 0xFF11]
   \<and> is_valid_ny_zipcode [0xFF11, 0xFF10, 0xFF10, 0xFF10, 0xFF11]"
proof -
  have a: "five_digits (ascii ''14925'')" "decimal_value (ascii ''14925'') = 14925"
    by code_simp+
  then have sa: "spec_is_valid (ascii ''14925'')" by (simp add: spec_is_valid_def ny_union_eq)
  have f: "five_digits [0xFF11, 0xFF10, 0xFF10, 0xFF10, 0xFF11]"
    "decimal_value [0xFF11, 0xFF10, 0xFF10, 0xFF10, 0xFF11] = 10001"
    by code_simp+
  then have sf: "spec_is_valid [0xFF11, 0xFF10, 0xFF10, 0xFF10, 0xFF11]"
    by (simp add: spec_is_valid_def ny_union_eq)
  have b: "py_int (ascii ''1492a'') = None" by code_simp
  have c: "py_int (ascii ''999999'') = Some 999999" by code_simp
  have c': "(999999::int) \<notin> ny_union" by (simp add: ny_union_eq)
  have d': "(10001::int) \<in> ny_union" by (simp add: ny_union_eq)
  from is_valid_ny_zipcode_spec [of "ascii ''14925''"] sa
  have 1: "is_valid_ny_zipcode (ascii ''14925'')" by blast
  from is_valid_ny_zipcode_spec [of "ascii ''1492a''"] b
  have 2: "\<not> is_valid_ny_zipcode (ascii ''1492a'')" by blast
  from is_valid_ny_zipcode_spec [of "ascii ''999999''"] c c'
  have 3: "\<not> is_valid_ny_zipcode (ascii ''999999'')" by blast
  from is_valid_ny_zipcode_spec [of "ascii ''010001''"] py_int_010001 d'
  have 4: "is_valid_ny_zipcode (ascii ''010001'')" by blast
  from is_valid_ny_zipcode_spec [of "[0xFF11, 0xFF10, 0xFF10, 0xFF10, 0xFF11]"] sf
  have 5: "is_valid_ny_zipcode [0xFF11, 0xFF10, 0xFF10, 0xFF10, 0xFF11]" by blast
  from sa sf b c py_int_010001 1 2 3 4 5 show ?thesis by blast
qed

text \<open>
  The six characters 010001 are not a five-digit string, and \<open>is_valid_ny_zipcode\<close>
  returns true on them: \<open>int\<close> reads them as 10001.
\<close>

theorem is_valid_ny_zipcode_six_chars:
  "is_valid_ny_zipcode (ascii ''010001'') \<noteq> spec_is_valid (ascii ''010001'')"
proof -
  have "is_valid_ny_zipcode (ascii ''010001'')"
    by (simp add: is_valid_ny_zipcode_eq py_int_010001)
  moreover have "\<not> spec_is_valid (ascii ''010001'')"
    by (simp add: spec_is_valid_def five_digits_def ascii_def)
  ultimately show ?thesis by simp
qed

section \<open>The image of the classifier\<close>

text \<open>
  C3. \<open>get_region\<close> never returns \<open>"Capital Region"\<close>, \<open>"Central New York"\<close>,
  \<open>"Western New York"\<close> or \<open>"Southern Tier"\<close>: every range of \<open>ny_ranges\<close> lies inside
  the outer range 10001 .. 14925 that is tested first, and every result is one of the eight
  other labels.
\<close>

theorem get_region_image:
  "get_region z \<in> set [''Manhattan, NYC'', ''Staten Island, NYC'', ''Bronx, NYC'',
        ''Queens, NYC'', ''Brooklyn, NYC'', ''New York City Area'', ''Unknown'', ''Invalid'']
   \<and> get_region z \<notin> set [''Capital Region'', ''Central New York'', ''Western New York'',
        ''Southern Tier'']
   \<and> list_all (\<lambda>(lower, upper). 10001 \<le> lower \<and> upper \<le> 14925) ny_ranges"
  by (simp add: get_region_def ny_ranges_def split: option.splits)

theorem get_region_image_witness:
  "get_region (ascii ''13500'') = ''New York City Area''
   \<and> get_region (ascii ''13500'') \<noteq> ''Central New York''"
proof -
  have "get_region (ascii ''13500'') = ''New York City Area''"
    by (simp add: get_region_def py_int_13500)
  with get_region_image [of "ascii ''13500''"] show ?thesis by simp
qed

section \<open>Malformed input\<close>

text \<open>
  C4. For every string that \<open>int\<close> does not convert, \<open>is_valid_ny_zipcode\<close> returns false
  and \<open>get_region\<close> returns \<open>"Invalid"\<close>. For every string that \<open>int\<close> converts to a
  value outside the five ranges, whatever its length, \<open>is_valid_ny_zipcode\<close> returns false
  and \<open>get_region\<close> returns \<open>"Unknown"\<close>. Every string of at most five characters that is
  not five decimal digits is of one of these two kinds. The strings that are not five
  digits and are not rejected are those which \<open>int\<close> converts to a value in the ranges;
  they are longer than five characters, \<open>is_valid_ny_zipcode\<close> returns true on them and
  \<open>get_region\<close> a label other than \<open>"Invalid"\<close> and \<open>"Unknown"\<close>.
\<close>

theorem classifier_fails_closed:
  "(py_int z = None \<longrightarrow> \<not> is_valid_ny_zipcode z \<and> get_region z = ''Invalid'')
   \<and> (\<forall>n. py_int z = Some n \<and> n \<notin> ny_union \<longrightarrow>
         \<not> is_valid_ny_zipcode z \<and> get_region z = ''Unknown'')
   \<and> (length z \<le> 5 \<and> \<not> five_digits z \<longrightarrow>
         \<not> is_valid_ny_zipcode z
         \<and> get_region z = (if py_int z = None then ''Invalid'' else ''Unknown''))
   \<and> (\<forall>n. py_int z = Some n \<and> n \<in> ny_union \<longrightarrow>
         is_valid_ny_zipcode z \<and> get_region z \<noteq> ''Invalid'' \<and> get_region z \<noteq> ''Unknown''
         \<and> (\<not> five_digits z \<longrightarrow> 5 < length z))"
proof -
  have unparsed: "\<not> is_valid_ny_zipcode z \<and> get_region z = ''Invalid''" if "py_int z = None"
    using that by (simp add: is_valid_ny_zipcode_eq get_region_def)
  have outside: "\<not> is_valid_ny_zipcode z \<and> get_region z = ''Unknown''"
    if "py_int z = Some n" "n \<notin> ny_union" for n
    using that by (auto simp: is_valid_ny_zipcode_eq get_region_def ny_union_eq)
  have inside: "is_valid_ny_zipcode z \<and> get_region z \<noteq> ''Invalid'' \<and> get_region z \<noteq> ''Unknown''"
    if "py_int z = Some n" "n \<in> ny_union" for n
    using that by (simp add: is_valid_ny_zipcode_eq get_region_def ny_union_eq)
  have long: "5 < length z" if p: "py_int z = Some n" "n \<in> ny_union" and nf: "\<not> five_digits z" for n
  proof (rule ccontr)
    assume "\<not> 5 < length z"
    then have len: "length z \<le> 5" by simp
    from p(2) have "10000 \<le> n" by (simp add: ny_union_eq)
    from py_int_at_most_five [OF p(1) len this] nf show False
      by (simp add: five_digits_def)
  qed
  have short: "\<not> is_valid_ny_zipcode z
      \<and> get_region z = (if py_int z = None then ''Invalid'' else ''Unknown'')"
    if a: "length z \<le> 5 \<and> \<not> five_digits z"
  proof (cases "py_int z")
    case None
    with unparsed show ?thesis by simp
  next
    case (Some n)
    with a long [of n] have "n \<notin> ny_union" by auto
    with Some outside show ?thesis by simp
  qed
  from unparsed outside inside long short show ?thesis by blast
qed

theorem classifier_fails_closed_witness:
  "py_int (ascii ''1O001'') = None \<and> \<not> is_valid_ny_zipcode (ascii ''1O001'')
   \<and> get_region (ascii ''1O001'') = ''Invalid''
   \<and> py_int (ascii ''123'') = Some 123 \<and> \<not> is_valid_ny_zipcode (ascii ''123'')
   \<and> get_region (ascii ''123'') = ''Unknown''
   \<and> py_int (ascii ''999999'') = Some 999999 \<and> \<not> is_valid_ny_zipcode (ascii ''999999'')
   \<and> get_region (ascii ''999999'') = ''Unknown''
   \<and> py_int (ascii ''010001'') = Some 10001 \<and> is_valid_ny_zipcode (ascii ''010001'')
   \<and> 5 < length (ascii ''010001'')"
proof -
  have a: "py_int (ascii ''1O001'') = None" by code_simp
  have c: "py_int (ascii ''999999'') = Some 999999" by code_simp
  have o: "(123::int) \<notin> ny_union" "(999999::int) \<notin> ny_union" "(10001::int) \<in> ny_union"
    by (simp_all add: ny_union_eq)
  have l: "5 < length (ascii ''010001'')" by (simp add: ascii_def)
  from classifier_fails_closed [of "ascii ''1O001''"] a
  have 1: "\<not> is_valid_ny_zipcode (ascii ''1O001'') \<and> get_region (ascii ''1O001'') = ''Invalid''"
    by blast
  from classifier_fails_closed [of "ascii ''123''"] py_int_123 o
  have 2: "\<not> is_valid_ny_zipcode (ascii ''123'') \<and> get_region (ascii ''123'') = ''Unknown''"
    by blast
  from classifier_fails_closed [of "ascii ''999999''"] c o
  have 3: "\<not> is_valid_ny_zipcode (ascii ''999999'') \<and> get_region (ascii ''999999'') = ''Unknown''"
    by blast
  from classifier_fails_closed [of "ascii ''010001''"] py_int_010001 o
  have 4: "is_valid_ny_zipcode (ascii ''010001'')" by blast
  from a c py_int_123 py_int_010001 l 1 2 3 4 show ?thesis by blast
qed

text \<open>
  Two strings that are not five digits: on the six characters 010001 the check returns
  true and the classifier a named region; on 123 the classifier returns \<open>"Unknown"\<close>,
  not \<open>"Invalid"\<close>.
\<close>

theorem classifier_wrong_length:
  "length (ascii ''010001'') \<noteq> 5 \<and> is_valid_ny_zipcode (ascii ''010001'')
   \<and> get_region (ascii ''010001'') = ''Manhattan, NYC''
   \<and> length (ascii ''123'') \<noteq> 5 \<and> get_region (ascii ''123'') = ''Unknown''"
proof -
  have "length (ascii ''010001'') \<noteq> 5" "length (ascii ''123'') \<noteq> 5"
    by (simp_all add: ascii_def)
  then show ?thesis
    by (simp add: is_valid_ny_zipcode_eq get_region_def py_int_010001 py_int_123)
qed

section \<open>The predict button\<close>

text \<open>
  C5. The check before the prediction. With the six characters 010001 in the ZIP code
  field, the block under the field warns that this is not a five-digit ZIP code, and the
  handler of the button, which tests \<open>is_valid_ny_zipcode\<close> alone, calls the model with
  the ZIP code 10001, whatever the model does.
\<close>

theorem predict_button_six_digits:
  "zip_code_block (zip_code six_digit_form) = [St_warning ''Please enter a valid 5-digit ZIP code'']
   \<and> take 2 (fst (run_script m six_digit_form))
       = [St_warning ''Please enter a valid 5-digit ZIP code'',
          Model_predict (input_data six_digit_form 10001)]"
proof -
  have z: "zip_code six_digit_form = ascii ''010001''" "predict_pressed six_digit_form"
    by (simp_all add: six_digit_form_def example_form_def)
  have "length (ascii ''010001'') \<noteq> 5" by (simp add: ascii_def)
  then have blk:
    "zip_code_block (ascii ''010001'') = [St_warning ''Please enter a valid 5-digit ZIP code'']"
    by (simp add: zip_code_block_def)
  have v: "is_valid_ny_zipcode (ascii ''010001'')"
    by (simp add: is_valid_ny_zipcode_eq py_int_010001)
  have "take 1 (fst (predict_button m (initial_state six_digit_form)))
        = [Model_predict (input_data six_digit_form 10001)]"
    by (cases "predict m (input_data six_digit_form 10001)";
        cases "predict_proba m (input_data six_digit_form 10001)")
       (simp_all add: predict_button_def initial_state_def Let_def z v py_int_010001)
  then show ?thesis
    by (auto simp: run_script_def z blk split: prod.splits)
qed

theorem predict_button_six_digits_witness:
  "length (zip_code six_digit_form) = 6
   \<and> take 3 (fst (run_script failing_model six_digit_form))
       = [St_warning ''Please enter a valid 5-digit ZIP code'',
          Model_predict (input_data six_digit_form 10001),
          St_error_making_prediction (Raised ''fault'')]"
proof -
  have z: "zip_code six_digit_form = ascii ''010001''" "predict_pressed six_digit_form"
    by (simp_all add: six_digit_form_def example_form_def)
  have l: "length (ascii ''010001'') = 6" by (simp add: ascii_def)
  have v: "is_valid_ny_zipcode (ascii ''010001'')"
    by (simp add: is_valid_ny_zipcode_eq py_int_010001)
  have "fst (predict_button failing_model (initial_state six_digit_form))
        = [Model_predict (input_data six_digit_form 10001),
            St_error_making_prediction (Raised ''fault'')]"
    by (simp add: predict_button_def initial_state_def Let_def z v py_int_010001
        failing_model_def)
  with predict_button_six_digits [of failing_model] show ?thesis
    by (auto simp: run_script_def z l split: prod.splits)
qed

section \<open>Temporal features\<close>

text \<open>
  C6. The temporal features of a request: month and day are the components of the date;
  the day of the week is \<open>weekday\<close>, which for every date of the calendar is the day of
  the week with Monday as 0 and Sunday as 6: it lies between 0 and 6, it is 0 on Monday
  2024-01-01, and from any date of the calendar to the day after, across the ends of
  months and years, it goes up by one modulo 7, so that \<open>n\<close> days after a date it is up by
  \<open>n\<close> modulo 7. The rush-hour flag is 1 exactly for the hours 7 .. 9 and 16 .. 19, the
  weekend flag exactly for a day of the week of 5 or more, the night-time flag exactly for
  the hours from 22 on and up to 5; each flag is 0 otherwise. This holds for every date and
  every hour.
\<close>

theorem temporal_features:
  "Month (input_data f z) = month (date_time f)
   \<and> Day (input_data f z) = day (date_time f)
   \<and> DayOfWeek (input_data f z) = weekday (date_time f)
   \<and> 0 \<le> weekday d \<and> weekday d \<le> 6
   \<and> weekday \<lparr> year = 2024, month = 1, day = 1 \<rparr> = 0
   \<and> (calendar_date d \<longrightarrow>
        calendar_date (next_day d) \<and> weekday (next_day d) = (weekday d + 1) mod 7
        \<and> weekday ((next_day ^^ n) d) = (weekday d + int n) mod 7)
   \<and> IsRushHour (input_data f z) = is_rush_hour (hour f)
   \<and> IsWeekend (input_data f z) = is_weekend (weekday (date_time f))
   \<and> IsNightTime (input_data f z) = is_night_time (hour f)
   \<and> is_rush_hour h = (if h \<in> {7..9} \<union> {16..19} then 1 else 0)
   \<and> is_weekend (weekday d) = (if weekday d \<ge> 5 then 1 else 0)
   \<and> is_night_time h = (if h \<ge> 22 \<or> h \<le> 5 then 1 else 0)"
proof -
  have a: "weekday \<lparr> year = 2024, month = 1, day = 1 \<rparr> = 0"
    by (simp add: weekday_def toordinal_def days_before_year_def days_before_month_def
        DAYS_BEFORE_MONTH_def is_leap_def)
  have b: "calendar_date d \<longrightarrow>
        calendar_date (next_day d) \<and> weekday (next_day d) = (weekday d + 1) mod 7
        \<and> weekday ((next_day ^^ n) d) = (weekday d + int n) mod 7"
    using calendar_date_next_day weekday_next_day weekday_funpow by blast
  have c: "0 \<le> weekday d \<and> weekday d \<le> 6"
    by (simp add: weekday_def)
  have r: "is_rush_hour h = (if h \<in> {7..9} \<union> {16..19} then 1 else 0)"
    by (simp add: is_rush_hour_def)
  have w: "is_weekend (weekday d) = (if weekday d \<ge> 5 then 1 else 0)"
    by (simp add: is_weekend_def)
  have t: "is_night_time h = (if h \<ge> 22 \<or> h \<le> 5 then 1 else 0)"
    by (simp add: is_night_time_def)
  have i: "Month (input_data f z) = month (date_time f)
   \<and> Day (input_data f z) = day (date_time f)
   \<and> DayOfWeek (input_data f z) = weekday (date_time f)
   \<and> IsRushHour (input_data f z) = is_rush_hour (hour f)
   \<and> IsWeekend (input_data f z) = is_weekend (weekday (date_time f))
   \<and> IsNightTime (input_data f z) = is_night_time (hour f)"
    by (simp add: input_data_def)
  from a b c r w t i show ?thesis by blast
qed

theorem temporal_features_witness:
  "calendar_date \<lparr> year = 2024, month = 12, day = 31 \<rparr>
   \<and> next_day \<lparr> year = 2024, month = 12, day = 31 \<rparr> = \<lparr> year = 2025, month = 1, day = 1 \<rparr>
   \<and> weekday \<lparr> year = 2024, month = 12, day = 31 \<rparr> = 1
   \<and> weekday \<lparr> year = 2025, month = 1, day = 1 \<rparr> = (1 + 1) mod 7
   \<and> IsRushHour (input_data example_form 10001) = 1
   \<and> IsWeekend (input_data example_form 10001) = 1
   \<and> IsNightTime (input_data example_form 10001) = 0
   \<and> DayOfWeek (input_data example_form 10001) = 5
   \<and> is_night_time 23 = 1"
proof -
  let ?d = "\<lparr> year = 2024, month = 12, day = 31 \<rparr>"
  have c: "calendar_date ?d" by (simp add: calendar_date_def calendar_days_in_month_def)
  have n: "next_day ?d = \<lparr> year = 2025, month = 1, day = 1 \<rparr>"
    by (simp add: next_day_def calendar_days_in_month_def)
  have w: "weekday ?d = 1"
    by (simp add: weekday_def toordinal_def days_before_year_def days_before_month_def
        DAYS_BEFORE_MONTH_def is_leap_def)
  from temporal_features [of example_form 10001 ?d 1 23] c
  have "weekday (next_day ?d) = (weekday ?d + 1) mod 7" by blast
  with n w have s: "weekday \<lparr> year = 2025, month = 1, day = 1 \<rparr> = (1 + 1) mod 7" by simp
  from temporal_features [of example_form 10001 "date_time example_form" 0 23]
    weekday_2024_06_15
  have e: "IsRushHour (input_data example_form 10001) = 1
   \<and> IsWeekend (input_data example_form 10001) = 1
   \<and> IsNightTime (input_data example_form 10001) = 0
   \<and> DayOfWeek (input_data example_form 10001) = 5
   \<and> is_night_time 23 = 1"
    by (simp add: example_form_def is_rush_hour_def is_weekend_def is_night_time_def)
  from c n w s e show ?thesis by blast
qed

section \<open>Risk factors\<close>

text \<open>
  C7. The list of risk factors holds the rush-hour note exactly when the rush-hour flag is
  set, the night-time note exactly when the night-time flag is set, and the high-risk
  note exactly when the contributing factor is \<open>"driver inattention/distraction"\<close> or
  \<open>"unsafe speed"\<close>; it holds nothing else and nothing twice. It is empty exactly when none
  of the three conditions holds, and then the handler renders
  \<open>"No significant risk factors identified."\<close> in place of the joined list.
\<close>

theorem risk_factors_exact:
  "(rush_hour_note \<in> set (risk_factors r n c) \<longleftrightarrow> r \<noteq> 0)
   \<and> (night_time_note \<in> set (risk_factors r n c) \<longleftrightarrow> n \<noteq> 0)
   \<and> (high_risk_note c \<in> set (risk_factors r n c) \<longleftrightarrow>
        c = ''driver inattention/distraction'' \<or> c = ''unsafe speed'')
   \<and> set (risk_factors r n c) \<subseteq> {rush_hour_note, night_time_note, high_risk_note c}
   \<and> distinct (risk_factors r n c)
   \<and> (risk_factors r n c = [] \<longleftrightarrow>
        r = 0 \<and> n = 0 \<and> c \<noteq> ''driver inattention/distraction'' \<and> c \<noteq> ''unsafe speed'')
   \<and> render_risk_factors (risk_factors r n c) =
        (if r = 0 \<and> n = 0 \<and> c \<noteq> ''driver inattention/distraction'' \<and> c \<noteq> ''unsafe speed''
         then St_markdown ''No significant risk factors identified.''
         else St_markdown (join_lines (risk_factors r n c)))"
  using notes_distinct [of c]
  by (auto simp: risk_factors_notes render_risk_factors_def)

theorem risk_factors_exact_witness:
  "risk_factors 1 0 ''unsafe speed'' = [rush_hour_note, high_risk_note ''unsafe speed'']
   \<and> risk_factors 0 0 ''other'' = []
   \<and> render_risk_factors (risk_factors 0 0 ''other'')
       = St_markdown ''No significant risk factors identified.''"
  using risk_factors_exact [of 1 0 "''unsafe speed''"] risk_factors_exact [of 0 0 "''other''"]
  by (simp add: risk_factors_notes)

section \<open>A failing predictor\<close>

text \<open>
  C8. When the ZIP code of the form is valid and a call to the model raises an exception
  that is an \<open>Exception\<close>, be it \<open>predict\<close> or, after it, \<open>predict_proba\<close>, the handler
  catches it, reports the failure with the one message \<open>Error making prediction\<close> and runs
  to its end without stopping the script. When the call raises an exception that is not an
  \<open>Exception\<close>, the handler does not catch it and reports nothing. In every case each
  method of the model is called at most once (nothing is retried), the widget values after
  the handler are those before it, and the next press of the button, from the variables
  the handler has left, does what it would have done from the variables before it.
\<close>

theorem predictor_failure_reported:
  assumes "is_valid_ny_zipcode (zip_code (widgets s))"
    and "py_int (zip_code (widgets s)) = Some z"
  shows "(predict m (input_data (widgets s) z) = Raises e \<longrightarrow>
            predict_button m s =
              ([Model_predict (input_data (widgets s) z),
                St_error_making_prediction (Raised e)],
               Completed, s \<lparr> input_data_v := Some (input_data (widgets s) z) \<rparr>))
       \<and> (predict m (input_data (widgets s) z) = Returns l
            \<and> predict_proba m (input_data (widgets s) z) = Raises e \<longrightarrow>
            predict_button m s =
              ([Model_predict (input_data (widgets s) z),
                Model_predict_proba (input_data (widgets s) z),
                St_error_making_prediction (Raised e)],
               Completed,
               s \<lparr> input_data_v := Some (input_data (widgets s) z), prediction_v := Some l \<rparr>))
       \<and> (predict m (input_data (widgets s) z) = Raises_base e \<longrightarrow>
            predict_button m s =
              ([Model_predict (input_data (widgets s) z)], Uncaught e,
               s \<lparr> input_data_v := Some (input_data (widgets s) z) \<rparr>))
       \<and> (predict m (input_data (widgets s) z) = Returns l
            \<and> predict_proba m (input_data (widgets s) z) = Raises_base e \<longrightarrow>
            predict_button m s =
              ([Model_predict (input_data (widgets s) z),
                Model_predict_proba (input_data (widgets s) z)], Uncaught e,
               s \<lparr> input_data_v := Some (input_data (widgets s) z), prediction_v := Some l \<rparr>))
       \<and> widgets (snd (snd (predict_button m s))) = widgets s
       \<and> fst (predict_button m' (snd (snd (predict_button m s)))) = fst (predict_button m' s)
       \<and> fst (snd (predict_button m' (snd (snd (predict_button m s)))))
           = fst (snd (predict_button m' s))
       \<and> length (filter is_model_call (fst (predict_button m s))) \<le> 2
       \<and> distinct (filter is_model_call (fst (predict_button m s)))"
proof -
  let ?req = "input_data (widgets s) z"
  have branches:
    "(predict m ?req = Raises e \<longrightarrow>
        predict_button m s =
          ([Model_predict ?req, St_error_making_prediction (Raised e)],
           Completed, s \<lparr> input_data_v := Some ?req \<rparr>))
     \<and> (predict m ?req = Returns l \<and> predict_proba m ?req = Raises e \<longrightarrow>
        predict_button m s =
          ([Model_predict ?req, Model_predict_proba ?req, St_error_making_prediction (Raised e)],
           Completed, s \<lparr> input_data_v := Some ?req, prediction_v := Some l \<rparr>))
     \<and> (predict m ?req = Raises_base e \<longrightarrow>
        predict_button m s =
          ([Model_predict ?req], Uncaught e, s \<lparr> input_data_v := Some ?req \<rparr>))
     \<and> (predict m ?req = Returns l \<and> predict_proba m ?req = Raises_base e \<longrightarrow>
        predict_button m s =
          ([Model_predict ?req, Model_predict_proba ?req], Uncaught e,
           s \<lparr> input_data_v := Some ?req, prediction_v := Some l \<rparr>))"
    using assms by (simp add: predict_button_def Let_def)
  have calls: "length (filter is_model_call (fst (predict_button m s))) \<le> 2
       \<and> distinct (filter is_model_call (fst (predict_button m s)))"
    using assms
    by (cases "predict m ?req"; cases "predict_proba m ?req")
       (simp_all add: predict_button_def Let_def show_results_no_call)
  have w: "widgets (snd (snd (predict_button m s))) = widgets s"
    by (rule predict_button_widgets)
  from predict_button_reads_widgets [OF w, of m']
  have next_press:
    "fst (predict_button m' (snd (snd (predict_button m s)))) = fst (predict_button m' s)
     \<and> fst (snd (predict_button m' (snd (snd (predict_button m s)))))
         = fst (snd (predict_button m' s))" .
  from branches calls w next_press show ?thesis by blast
qed

theorem predictor_failure_reported_witness:
  "is_valid_ny_zipcode (zip_code (widgets (initial_state example_form)))
   \<and> py_int (zip_code (widgets (initial_state example_form))) = Some 10001
   \<and> predict failing_model (input_data example_form 10001) = Raises ''fault''
   \<and> predict_button failing_model (initial_state example_form) =
        ([Model_predict (input_data example_form 10001),
          St_error_making_prediction (Raised ''fault'')], Completed,
         (initial_state example_form)
           \<lparr> input_data_v := Some (input_data example_form 10001) \<rparr>)
   \<and> widgets (snd (snd (predict_button failing_model (initial_state example_form))))
       = example_form"
proof -
  let ?s = "initial_state example_form"
  have ws: "widgets ?s = example_form" by (simp add: initial_state_def)
  have zc: "zip_code example_form = ascii ''10001''" by (simp add: example_form_def)
  have p: "py_int (zip_code (widgets ?s)) = Some 10001"
    by (simp add: ws zc py_int_10001)
  then have v: "is_valid_ny_zipcode (zip_code (widgets ?s))"
    by (simp add: is_valid_ny_zipcode_eq)
  have e: "predict failing_model (input_data example_form 10001) = Raises ''fault''"
    by (simp add: failing_model_def)
  from predictor_failure_reported [OF v p, of failing_model "''fault''"] p v e ws
  show ?thesis by simp
qed

text \<open>
  A model whose \<open>predict\<close> is interrupted: the request is valid, the call raises, and the
  handler neither catches the exception nor reports a failure.
\<close>

theorem predictor_interrupt_uncaught:
  "is_valid_ny_zipcode (zip_code example_form)
   \<and> predict interrupted_model (input_data example_form 10001) = Raises_base ''KeyboardInterrupt''
   \<and> fst (predict_button interrupted_model (initial_state example_form))
       = [Model_predict (input_data example_form 10001)]
   \<and> fst (snd (predict_button interrupted_model (initial_state example_form)))
       = Uncaught ''KeyboardInterrupt''"
proof -
  have zc: "zip_code example_form = ascii ''10001''" by (simp add: example_form_def)
  have v: "is_valid_ny_zipcode (zip_code example_form)"
    by (simp add: zc is_valid_ny_zipcode_eq py_int_10001)
  then show ?thesis
    by (simp add: predict_button_def initial_state_def Let_def zc py_int_10001
        interrupted_model_def)
qed

section \<open>Validity and classification agree\<close>

text \<open>
  C9. For every string, \<open>is_valid_ny_zipcode\<close> returns true if and only if \<open>get_region\<close>
  returns neither \<open>"Unknown"\<close> nor \<open>"Invalid"\<close>.
\<close>

theorem valid_iff_named_region:
  "is_valid_ny_zipcode z \<longleftrightarrow> get_region z \<noteq> ''Unknown'' \<and> get_region z \<noteq> ''Invalid''"
  by (simp add: is_valid_ny_zipcode_eq get_region_def split: option.splits)

theorem valid_iff_named_region_witness:
  "is_valid_ny_zipcode (ascii ''11201'') \<and> get_region (ascii ''11201'') = ''Queens, NYC''
   \<and> \<not> is_valid_ny_zipcode (ascii ''99999'') \<and> get_region (ascii ''99999'') = ''Unknown''"
proof -
  have a: "get_region (ascii ''11201'') = ''Queens, NYC''"
    "get_region (ascii ''99999'') = ''Unknown''"
    by code_simp+
  from valid_iff_named_region [of "ascii ''11201''"] valid_iff_named_region [of "ascii ''99999''"] a
  show ?thesis by simp
qed

section \<open>Rush hour and night time exclude each other\<close>

text \<open>
  C10. For every hour, the rush-hour flag and the night-time flag are never both set, so
  the list of risk factors of a prediction never holds both the rush-hour note and the
  night-time note.
\<close>

theorem rush_hour_night_time_exclusive:
  "\<not> (is_rush_hour h \<noteq> 0 \<and> is_night_time h \<noteq> 0)
   \<and> \<not> (rush_hour_note \<in> set (risk_factors (is_rush_hour h) (is_night_time h) c)
         \<and> night_time_note \<in> set (risk_factors (is_rush_hour h) (is_night_time h) c))"
  using notes_distinct [of c]
  by (auto simp: risk_factors_notes is_rush_hour_def is_night_time_def)

theorem rush_hour_night_time_exclusive_witness:
  "is_rush_hour 8 = 1 \<and> is_night_time 8 = 0 \<and> is_rush_hour 23 = 0 \<and> is_night_time 23 = 1
   \<and> night_time_note \<notin> set (risk_factors (is_rush_hour 8) (is_night_time 8) ''other'')"
  using rush_hour_night_time_exclusive [of 8 "''other''"]
  by (simp add: is_rush_hour_def is_night_time_def risk_factors_notes)

end
